theory Spec2Isabelle
  imports Complex_Main
begin

section \<open>Strings\<close>

text \<open>
  Python strings are modelled as \<open>string\<close> (lists of 8-bit characters), so the model
  covers ASCII text. \<open>str.lower\<close> and \<open>str.upper\<close> change the 26 ASCII letters and
  leave every other character alone.
\<close>

definition lower_char :: "char \<Rightarrow> char" where
  "lower_char c =
     (let n = (of_char c :: nat) in if 65 \<le> n \<and> n \<le> 90 then char_of (n + 32) else c)"

definition upper_char :: "char \<Rightarrow> char" where
  "upper_char c =
     (let n = (of_char c :: nat) in if 97 \<le> n \<and> n \<le> 122 then char_of (n - 32) else c)"

definition lower :: "string \<Rightarrow> string" where
  "lower s = map lower_char s"

definition upper :: "string \<Rightarrow> string" where
  "upper s = map upper_char s"

text \<open>\<open>s.split(sep)\<close> for a one-character separator: never the empty list.\<close>

fun split :: "char \<Rightarrow> string \<Rightarrow> string list" where
  "split sep [] = [[]]"
| "split sep (c # cs) =
     (if c = sep then [] # split sep cs
      else (case split sep cs of
              [] \<Rightarrow> [[c]]
            | w # ws \<Rightarrow> (c # w) # ws))"

section \<open>Order identifiers\<close>

text \<open>
  \<open>str(uuid.uuid4())\<close> prints the 128-bit value of the identifier as 32 lowercase
  hexadecimal digits in groups of 8-4-4-4-12. The random value is an input of the model.
\<close>

definition hexdigit :: "nat \<Rightarrow> char" where
  "hexdigit d = ''0123456789abcdef'' ! (d mod 16)"

fun hex_fixed :: "nat \<Rightarrow> nat \<Rightarrow> string" where
  "hex_fixed 0 n = []"
| "hex_fixed (Suc w) n = hex_fixed w (n div 16) @ [hexdigit (n mod 16)]"

definition uuid_str :: "nat \<Rightarrow> string" where
  "uuid_str n =
     (let h = hex_fixed 32 n in
        take 8 h @ ''-'' @ take 4 (drop 8 h) @ ''-'' @ take 4 (drop 12 h) @ ''-''
        @ take 4 (drop 16 h) @ ''-'' @ drop 20 h)"

definition well_formed_order_id :: "string \<Rightarrow> bool" where
  "well_formed_order_id s \<longleftrightarrow>
     length s = 8 \<and> list_all (\<lambda>c. c \<in> set ''0123456789ABCDEF'') s"

section \<open>Data model\<close>

text \<open>
  The pydantic models. Prices are Python floats; the model leaves their type \<open>'p\<close> open
  and takes the two float computations of the source as parameters where they are used.
  A \<open>Dict[str, CartItem]\<close> keeps its insertion order: a list of pairs.
\<close>

record 'p cart_item =
  qty :: int
  price :: 'p
  pricePerUnit :: 'p
  imageUrl :: string

record 'p cart =
  items :: "(string \<times> 'p cart_item) list"
  totalQty :: int
  totalPrice :: 'p

record 'p order_request =
  phone :: string
  email :: string
  verification :: string
  shipping :: string
  order :: "'p cart"
  cf_token :: string

section \<open>Business hours\<close>

datatype weekday = Monday | Tuesday | Wednesday | Thursday | Friday | Saturday | Sunday

text \<open>\<open>now.strftime('%A')\<close>.\<close>

fun day_name :: "weekday \<Rightarrow> string" where
  "day_name Monday = ''Monday''"
| "day_name Tuesday = ''Tuesday''"
| "day_name Wednesday = ''Wednesday''"
| "day_name Thursday = ''Thursday''"
| "day_name Friday = ''Friday''"
| "day_name Saturday = ''Saturday''"
| "day_name Sunday = ''Sunday''"

text \<open>
  \<open>validate_business_hours\<close> reads the clock; the model takes the Eastern weekday and
  hour of \<open>now\<close> as arguments.
\<close>

definition validate_business_hours :: "weekday \<Rightarrow> nat \<Rightarrow> bool \<times> string" where
  "validate_business_hours now_weekday now_hour =
     (let current_day = day_name now_weekday; current_hour = now_hour in
        if current_day = ''Sunday'' then (False, ''Our business hours are Mon-Sat 8am-8pm.'')
        else if current_hour < 8 \<or> current_hour \<ge> 20
          then (False, ''Our business hours are Mon-Sat 8am-8pm.'')
        else (True, ''''))"

section \<open>External collaborators\<close>

text \<open>An outbound call either returns a value or raises an exception.\<close>

datatype 'a outcome = Returned 'a | Raised

datatype rdtype = MX | NS

record ses_message =
  source :: string
  to_addresses :: "string list"
  subject :: string

text \<open>
  Everything the handler reads from outside the request: the clock, the random
  identifier, the configuration, the Turnstile service (the truth value of the
  \<open>success\<close> field of its answer), the blocklist, the DNS resolver (the records of an
  answer) and SES (\<open>True\<close> when \<open>send_email\<close> returns, \<open>False\<close> when it raises).
\<close>

record env =
  now_weekday :: weekday
  now_hour :: nat
  uuid4 :: nat
  client_host :: string
  business_email :: string
  no_reply_email :: string
  turnstile :: "string \<Rightarrow> bool outcome"
  blocklist :: "string set"
  dns_resolve :: "string \<Rightarrow> rdtype \<Rightarrow> string list outcome"
  ses_send_email :: "ses_message \<Rightarrow> bool"

section \<open>Email domain check\<close>

text \<open>The body of the \<open>try\<close> block of \<open>is_domain_real\<close>: \<open>Raised\<close> when a resolver call raises.\<close>

definition is_domain_real_body :: "env \<Rightarrow> string \<Rightarrow> bool outcome" where
  "is_domain_real_body e email_addr =
     (let domain = last (split (CHR ''@'') email_addr) in
        if domain \<in> blocklist e then Returned False
        else (case dns_resolve e domain MX of
                Raised \<Rightarrow> Raised
              | Returned mx_records \<Rightarrow>
                  if mx_records = [] then Returned False
                  else (case dns_resolve e domain NS of
                          Raised \<Rightarrow> Raised
                        | Returned ns_records \<Rightarrow>
                            if ns_records = [] then Returned False else Returned True)))"

text \<open>The \<open>except\<close> clause catches every exception and returns \<open>False\<close>.\<close>

definition is_domain_real :: "env \<Rightarrow> string \<Rightarrow> bool" where
  "is_domain_real e email_addr =
     (case is_domain_real_body e email_addr of Raised \<Rightarrow> False | Returned b \<Rightarrow> b)"

section \<open>Notification dispatch\<close>

text \<open>
  \<open>send_order_emails\<close> renders two HTML documents (pure string templates, left out of
  \<open>ses_message\<close>) and calls SES twice inside one \<open>try\<close>. The result is the returned flag
  and the messages SES accepted, in order.
\<close>

definition owner_message :: "env \<Rightarrow> string \<Rightarrow> ses_message" where
  "owner_message e order_id =
     \<lparr>source = no_reply_email e, to_addresses = [business_email e],
      subject = ''New Order Received - '' @ order_id\<rparr>"

definition customer_message :: "env \<Rightarrow> 'p order_request \<Rightarrow> string \<Rightarrow> ses_message" where
  "customer_message e order_data order_id =
     \<lparr>source = no_reply_email e, to_addresses = [lower (email order_data)],
      subject = ''Order Confirmation - '' @ order_id\<rparr>"

definition send_order_emails :: "env \<Rightarrow> 'p order_request \<Rightarrow> string \<Rightarrow> bool \<times> ses_message list" where
  "send_order_emails e order_data order_id =
     (if \<not> ses_send_email e (owner_message e order_id) then (False, [])
      else if \<not> ses_send_email e (customer_message e order_data order_id)
        then (False, [owner_message e order_id])
      else (True, [owner_message e order_id, customer_message e order_data order_id]))"

section \<open>The handler\<close>

datatype http_exception = HTTPException (status_code: nat) (detail: string)

record order_content =
  success :: bool
  orderId :: string
  message :: string

datatype json_response = JSONResponse (response_status: nat) (content: order_content)

datatype handler_exception = Http http_exception | Other

definition verify_turnstile_token :: "env \<Rightarrow> string \<Rightarrow> bool outcome" where
  "verify_turnstile_token e token = turnstile e token"

definition generate_order_id :: "env \<Rightarrow> string" where
  "generate_order_id e = upper (take 8 (uuid_str (uuid4 e)))"

definition order_placed :: "string \<Rightarrow> json_response" where
  "order_placed order_id =
     JSONResponse 200
       \<lparr>success = True, orderId = order_id, message = ''Order placed successfully''\<rparr>"

text \<open>
  The \<open>try\<close> block of \<open>process_order\<close>: the response or the exception raised, and the
  messages SES accepted.
\<close>

definition process_order_body ::
  "env \<Rightarrow> 'p order_request \<Rightarrow> (handler_exception + json_response) \<times> ses_message list" where
  "process_order_body e order_request =
     (let (is_valid_hours, hours_error) = validate_business_hours (now_weekday e) (now_hour e) in
      if \<not> is_valid_hours then (Inl (Http (HTTPException 400 hours_error)), [])
      else
        let order_id = generate_order_id e in
        if verification order_request \<noteq> [] then (Inr (order_placed order_id), [])
        else (case verify_turnstile_token e (cf_token order_request) of
                Raised \<Rightarrow> (Inl Other, [])
              | Returned is_human \<Rightarrow>
                  if \<not> is_human then (Inl (Http (HTTPException 400 ''Security check failed'')), [])
                  else if \<not> is_domain_real e (lower (email order_request))
                    then (Inl (Http (HTTPException 400 ''Please provide a valid email address.'')), [])
                  else
                    let (email_sent, sent) = send_order_emails e order_request order_id in
                    if \<not> email_sent
                      then (Inl (Http (HTTPException 500
                              ''Failed to send order confirmation. Please try again.'')), sent)
                    else (Inr (order_placed order_id), sent)))"

text \<open>
  The \<open>except\<close> clauses: an \<open>HTTPException\<close> is raised again, any other exception
  becomes the generic 500.
\<close>

definition process_order ::
  "env \<Rightarrow> 'p order_request \<Rightarrow> (http_exception + json_response) \<times> ses_message list" where
  "process_order e order_request =
     (case process_order_body e order_request of
        (Inl (Http h), sent) \<Rightarrow> (Inl h, sent)
      | (Inl Other, sent) \<Rightarrow> (Inl (HTTPException 500 ''Network error. Please try again.''), sent)
      | (Inr r, sent) \<Rightarrow> (Inr r, sent))"


section \<open>The phone pattern\<close>












section \<open>The language of the phone pattern\<close>













section \<open>Schema validation\<close>

text \<open>
  The models are pydantic models. Validating a model visits its fields in the order of
  declaration; a field runs its constraint (\<open>gt\<close>, \<open>ge\<close>) and then its validators in
  the order of definition, and stops at the first that fails; the error is recorded
  under the location of the field and the next field is visited. A validator sees in
  \<open>values\<close> the earlier fields that validated. The model fails with all recorded
  errors. Payloads are well typed here: missing fields and wrong types are not modelled.

  The float comparisons and the \<open>EmailStr\<close> check are parameters: \<open>float_ge_zero v\<close> is
  \<open>v >= 0\<close>, \<open>price_sum_differs prices v\<close> is \<open>abs(sum(prices) - v) > 0.01\<close>, and
  \<open>email_str\<close> returns the accepted address or nothing.
\<close>

record 'p library =
  float_ge_zero :: "'p \<Rightarrow> bool"
  price_sum_differs :: "'p list \<Rightarrow> 'p \<Rightarrow> bool"
  email_str :: "string \<Rightarrow> string option"

datatype error_type = NotGreaterThan | NotGreaterEqual | ValueError string | EmailSyntax

type_synonym error_item = "string list \<times> error_type"

definition field_errors :: "string list \<Rightarrow> error_type + 'a \<Rightarrow> error_item list" where
  "field_errors loc res = (case res of Inl err \<Rightarrow> [(loc, err)] | Inr v \<Rightarrow> [])"

definition validate_cart_item ::
  "'p library \<Rightarrow> string list \<Rightarrow> 'p cart_item \<Rightarrow> error_item list" where
  "validate_cart_item L loc item =
     (if qty item > 0 then [] else [(loc @ [''qty''], NotGreaterThan)])
     @ (if float_ge_zero L (price item) then [] else [(loc @ [''price''], NotGreaterEqual)])
     @ (if float_ge_zero L (pricePerUnit item) then []
        else [(loc @ [''pricePerUnit''], NotGreaterEqual)])"

fun validate_items ::
  "'p library \<Rightarrow> string list \<Rightarrow> (string \<times> 'p cart_item) list \<Rightarrow> error_item list" where
  "validate_items L loc [] = []"
| "validate_items L loc ((name, item) # rest) =
     validate_cart_item L (loc @ [name]) item @ validate_items L loc rest"

definition validate_min_quantity :: "int \<Rightarrow> string + int" where
  "validate_min_quantity v =
     (if v < 3 then Inl ''Our minimum order size for delivery is 3 items.'' else Inr v)"

definition validate_total_price ::
  "'p library \<Rightarrow> 'p \<Rightarrow> (string \<times> 'p cart_item) list option \<Rightarrow> string + 'p" where
  "validate_total_price L v values_items =
     (case values_items of
        Some its \<Rightarrow>
          if price_sum_differs L (map (\<lambda>(name, item). price item) its) v
          then Inl ''Total price does not match sum of item prices''
          else Inr v
      | None \<Rightarrow> Inr v)"

definition validate_total_qty ::
  "int \<Rightarrow> (string \<times> 'p cart_item) list option \<Rightarrow> string + int" where
  "validate_total_qty v values_items =
     (case values_items of
        Some its \<Rightarrow>
          if sum_list (map (\<lambda>(name, item). qty item) its) \<noteq> v
          then Inl ''Total quantity does not match sum of item quantities''
          else Inr v
      | None \<Rightarrow> Inr v)"

definition field_totalQty ::
  "int \<Rightarrow> (string \<times> 'p cart_item) list option \<Rightarrow> error_type + int" where
  "field_totalQty v values_items =
     (if \<not> v \<ge> 0 then Inl NotGreaterEqual
      else (case validate_min_quantity v of
              Inl msg \<Rightarrow> Inl (ValueError msg)
            | Inr v1 \<Rightarrow>
                (case validate_total_qty v1 values_items of
                   Inl msg \<Rightarrow> Inl (ValueError msg)
                 | Inr v2 \<Rightarrow> Inr v2)))"

definition field_totalPrice ::
  "'p library \<Rightarrow> 'p \<Rightarrow> (string \<times> 'p cart_item) list option \<Rightarrow> error_type + 'p" where
  "field_totalPrice L v values_items =
     (if \<not> float_ge_zero L v then Inl NotGreaterEqual
      else (case validate_total_price L v values_items of
              Inl msg \<Rightarrow> Inl (ValueError msg)
            | Inr v1 \<Rightarrow> Inr v1))"

definition cart_errors :: "'p library \<Rightarrow> string list \<Rightarrow> 'p cart \<Rightarrow> error_item list" where
  "cart_errors L loc c =
     (let item_errors = validate_items L (loc @ [''items'']) (items c);
          values_items = (if item_errors = [] then Some (items c) else None)
      in item_errors
         @ field_errors (loc @ [''totalQty'']) (field_totalQty (totalQty c) values_items)
         @ field_errors (loc @ [''totalPrice''])
             (field_totalPrice L (totalPrice c) values_items))"

definition validate_cart :: "'p library \<Rightarrow> 'p cart \<Rightarrow> error_item list + 'p cart" where
  "validate_cart L c = (if cart_errors L [] c = [] then Inr c else Inl (cart_errors L [] c))"





section \<open>Example inputs\<close>

definition example_cart :: "real cart" where
  "example_cart =
     \<lparr>items = [(''apple'', \<lparr>qty = 1, price = 10, pricePerUnit = 10, imageUrl = ''a.png''\<rparr>),
               (''pear'', \<lparr>qty = 1, price = 5, pricePerUnit = 5, imageUrl = ''p.png''\<rparr>),
               (''plum'', \<lparr>qty = 1, price = 5, pricePerUnit = 5, imageUrl = ''l.png''\<rparr>)],
      totalQty = 3, totalPrice = 20\<rparr>"

definition example_request :: "real order_request" where
  "example_request =
     \<lparr>phone = ''555-123-4567'', email = ''User@Example.COM'', verification = '''',
      shipping = ''1 Main St'', order = example_cart, cf_token = ''tok''\<rparr>"

definition bot_request :: "real order_request" where
  "bot_request = example_request\<lparr>verification := ''x''\<rparr>"

definition example_env :: env where
  "example_env =
     \<lparr>now_weekday = Tuesday, now_hour = 10, uuid4 = 0x1a2b3c4d5e6f47a8b9c0d1e2f3a4b5c6,
      client_host = ''203.0.113.7'', business_email = ''owner@shop.example'',
      no_reply_email = ''no-reply@shop.example'',
      turnstile = (\<lambda>token. Returned True),
      blocklist = {''mailinator.com''},
      dns_resolve = (\<lambda>domain rd. Returned [''record'']),
      ses_send_email = (\<lambda>m. True)\<rparr>"


text \<open>
  A stand-in for the float computations in the examples: exact arithmetic, used on
  values where double arithmetic is exact too.
\<close>

definition example_library :: "real library" where
  "example_library =
     \<lparr>float_ge_zero = (\<lambda>v. 0 \<le> v),
      price_sum_differs = (\<lambda>prices v. \<bar>sum_list prices - v\<bar> > 1 / 100),
      email_str = (\<lambda>v. if CHR ''@'' \<in> set v then Some v else None)\<rparr>"

definition negative_cart :: "real cart" where
  "negative_cart = \<lparr>items = [], totalQty = - 1, totalPrice = 0\<rparr>"

definition small_cart :: "real cart" where
  "small_cart =
     \<lparr>items = [(''apple'', \<lparr>qty = 0, price = 10, pricePerUnit = 10, imageUrl = ''a.png''\<rparr>)],
      totalQty = 2, totalPrice = 10\<rparr>"


text \<open>
  Two addresses differ only in letter case when they have the same length and, at each
  position, the same character or the two cases of one ASCII letter.
\<close>

definition is_upper_letter :: "char \<Rightarrow> bool" where
  "is_upper_letter c \<longleftrightarrow> 65 \<le> (of_char c :: nat) \<and> (of_char c :: nat) \<le> 90"

definition same_letter :: "char \<Rightarrow> char \<Rightarrow> bool" where
  "same_letter c d \<longleftrightarrow>
     c = d
     \<or> (is_upper_letter c \<and> (of_char d :: nat) = of_char c + 32)
     \<or> (is_upper_letter d \<and> (of_char c :: nat) = of_char d + 32)"

definition differ_only_in_case :: "string \<Rightarrow> string \<Rightarrow> bool" where
  "differ_only_in_case a b \<longleftrightarrow> list_all2 same_letter a b"

section \<open>Order identifiers are well formed\<close>

lemma length_hex_fixed: "length (hex_fixed w n) = w"
  by (induction w arbitrary: n) auto

lemma upper_hexchars: "map upper_char ''0123456789abcdef'' = ''0123456789ABCDEF''"
  by code_simp

lemma upper_hexdigit_eq: "upper_char (hexdigit d) = ''0123456789ABCDEF'' ! (d mod 16)"
proof -
  have "d mod 16 < length ''0123456789abcdef''" by simp
  then have "map upper_char ''0123456789abcdef'' ! (d mod 16) = upper_char (hexdigit d)"
    unfolding hexdigit_def by (rule nth_map)
  then show ?thesis by (simp only: upper_hexchars)
qed

lemma upper_hexdigit: "upper_char (hexdigit d) \<in> set ''0123456789ABCDEF''"
proof -
  have "d mod 16 < length ''0123456789ABCDEF''" by simp
  then have "''0123456789ABCDEF'' ! (d mod 16) \<in> set ''0123456789ABCDEF''"
    by (rule nth_mem)
  then show ?thesis by (simp only: upper_hexdigit_eq)
qed

lemma take_hex_fixed: "k \<le> w \<Longrightarrow> take k (hex_fixed w n) = hex_fixed k (n div 16 ^ (w - k))"
proof (induction w arbitrary: n)
  case 0
  then show ?case by simp
next
  case (Suc w)
  show ?case
  proof (cases "k = Suc w")
    case True
    then show ?thesis by (simp add: length_hex_fixed)
  next
    case False
    with Suc.prems have le: "k \<le> w" by simp
    then have "take k (hex_fixed (Suc w) n) = take k (hex_fixed w (n div 16))"
      by (simp add: length_hex_fixed)
    also have "\<dots> = hex_fixed k (n div 16 div 16 ^ (w - k))"
      using Suc.IH [OF le] .
    also have "n div 16 div 16 ^ (w - k) = n div 16 ^ (Suc w - k)"
      using le by (simp add: Suc_diff_le div_mult2_eq)
    finally show ?thesis .
  qed
qed

lemma hex_fixed_8:
  "hex_fixed 8 n =
     [hexdigit (n div 16 ^ 7), hexdigit (n div 16 ^ 6), hexdigit (n div 16 ^ 5),
      hexdigit (n div 16 ^ 4), hexdigit (n div 16 ^ 3), hexdigit (n div 16 ^ 2),
      hexdigit (n div 16), hexdigit n]"
proof -
  have eight: "(8::nat) = Suc (Suc (Suc (Suc (Suc (Suc (Suc (Suc 0)))))))" by simp
  have unfolded: "hex_fixed (Suc (Suc (Suc (Suc (Suc (Suc (Suc (Suc 0)))))))) n =
     [hexdigit (n div 16 ^ 7), hexdigit (n div 16 ^ 6), hexdigit (n div 16 ^ 5),
      hexdigit (n div 16 ^ 4), hexdigit (n div 16 ^ 3), hexdigit (n div 16 ^ 2),
      hexdigit (n div 16), hexdigit n]"
    by (simp add: hexdigit_def div_mult2_eq [symmetric])
  show ?thesis by (subst eight) (fact unfolded)
qed

lemma upper_hex_fixed:
  "list_all (\<lambda>c. c \<in> set ''0123456789ABCDEF'') (map upper_char (hex_fixed w n))"
  by (induction w arbitrary: n) (auto simp: upper_hexdigit simp del: set_simps)

lemma take8_uuid_str: "take 8 (uuid_str n) = take 8 (hex_fixed 32 n)"
  by (simp add: uuid_str_def Let_def length_hex_fixed)

lemma generate_order_id_well_formed: "well_formed_order_id (generate_order_id e)"
proof -
  have "list_all (\<lambda>c. c \<in> set ''0123456789ABCDEF'')
          (take 8 (map upper_char (hex_fixed 32 (uuid4 e))))"
    using upper_hex_fixed [of 32 "uuid4 e"]
    by (metis append_take_drop_id list_all_append)
  then show ?thesis
    by (simp add: well_formed_order_id_def generate_order_id_def upper_def take8_uuid_str
        length_hex_fixed take_map)
qed

section \<open>The gates of the handler\<close>

lemma hours_closed:
  "now_weekday e = Sunday \<or> now_hour e < 8 \<or> 20 \<le> now_hour e \<Longrightarrow>
   validate_business_hours (now_weekday e) (now_hour e) =
     (False, ''Our business hours are Mon-Sat 8am-8pm.'')"
  by (cases "now_weekday e") (auto simp: validate_business_hours_def Let_def)

lemma hours_open:
  "now_weekday e \<noteq> Sunday \<Longrightarrow> 8 \<le> now_hour e \<Longrightarrow> now_hour e < 20 \<Longrightarrow>
   validate_business_hours (now_weekday e) (now_hour e) = (True, '''')"
  by (cases "now_weekday e") (auto simp: validate_business_hours_def Let_def)



lemma process_order_closed:
  "now_weekday e = Sunday \<or> now_hour e < 8 \<or> 20 \<le> now_hour e \<Longrightarrow>
   process_order e r = (Inl (HTTPException 400 ''Our business hours are Mon-Sat 8am-8pm.''), [])"
  by (simp add: process_order_def process_order_body_def hours_closed)

lemma process_order_open:
  "now_weekday e \<noteq> Sunday \<Longrightarrow> 8 \<le> now_hour e \<Longrightarrow> now_hour e < 20 \<Longrightarrow>
   process_order_body e r =
     (let order_id = generate_order_id e in
        if verification r \<noteq> [] then (Inr (order_placed order_id), [])
        else (case verify_turnstile_token e (cf_token r) of
                Raised \<Rightarrow> (Inl Other, [])
              | Returned is_human \<Rightarrow>
                  if \<not> is_human then (Inl (Http (HTTPException 400 ''Security check failed'')), [])
                  else if \<not> is_domain_real e (lower (email r))
                    then (Inl (Http (HTTPException 400 ''Please provide a valid email address.'')), [])
                  else
                    let (email_sent, sent) = send_order_emails e r order_id in
                    if \<not> email_sent
                      then (Inl (Http (HTTPException 500
                              ''Failed to send order confirmation. Please try again.'')), sent)
                    else (Inr (order_placed order_id), sent)))"
  by (simp add: process_order_body_def hours_open)

lemma lower_example: "lower ''User@Example.COM'' = ''user@example.com''"
  by code_simp

lemma domain_example: "last (split (CHR ''@'') ''user@example.com'') = ''example.com''"
  by code_simp

lemma generate_order_id_eq:
  "generate_order_id e = map upper_char (hex_fixed 8 (uuid4 e div 16 ^ 24))"
proof -
  have "take 8 (hex_fixed 32 (uuid4 e)) = hex_fixed 8 (uuid4 e div 16 ^ (32 - 8))"
    by (rule take_hex_fixed) simp
  then show ?thesis
    by (simp add: generate_order_id_def upper_def take8_uuid_str)
qed

lemma example_order_id: "generate_order_id example_env = ''1A2B3C4D''"
proof -
  have "uuid4 example_env div 16 ^ 24 = 0x1a2b3c4d"
    by (simp add: example_env_def)
  then show ?thesis
    by (simp add: generate_order_id_eq hex_fixed_8 upper_hexdigit_eq)
qed

lemma process_order_not_closed:
  assumes "now_weekday e \<noteq> Sunday" and "8 \<le> now_hour e" and "now_hour e < 20"
  shows "fst (process_order e r) \<noteq> Inl (HTTPException 400 ''Our business hours are Mon-Sat 8am-8pm.'')"
  using assms
  by (auto simp: process_order_def process_order_open Let_def send_order_emails_def
      order_placed_def split: outcome.splits)

lemma same_letter_lower_char: "same_letter c d \<Longrightarrow> lower_char c = lower_char d"
proof -
  have up: "lower_char x = y \<and> lower_char y = y"
    if "is_upper_letter x" and "(of_char y :: nat) = of_char x + 32" for x y
  proof -
    have "char_of (of_char x + 32 :: nat) = char_of (of_char y :: nat)"
      using that(2) by simp
    then have "char_of (of_char x + 32 :: nat) = y" by simp
    then show ?thesis
      using that by (simp add: lower_char_def is_upper_letter_def Let_def)
  qed
  assume "same_letter c d"
  then consider "c = d" | "is_upper_letter c \<and> (of_char d :: nat) = of_char c + 32"
    | "is_upper_letter d \<and> (of_char c :: nat) = of_char d + 32"
    unfolding same_letter_def by blast
  then show ?thesis
  proof cases
    case 1 then show ?thesis by simp
  next
    case 2 then show ?thesis using up [of c d] by simp
  next
    case 3 then show ?thesis using up [of d c] by simp
  qed
qed

lemma differ_only_in_case_lower: "differ_only_in_case a b \<Longrightarrow> lower a = lower b"
  unfolding differ_only_in_case_def lower_def
  by (induction a b rule: list_all2_induct) (simp_all add: same_letter_lower_char)

lemma domain_gate_response:
  assumes "now_weekday e \<noteq> Sunday" and "8 \<le> now_hour e" and "now_hour e < 20"
    and "verification r = []"
    and "verify_turnstile_token e (cf_token r) = Returned True"
  shows "fst (process_order e r) = Inl (HTTPException 400 ''Please provide a valid email address.'')
         \<longleftrightarrow> \<not> is_domain_real e (lower (email r))"
  using assms
  by (auto simp: process_order_def process_order_open Let_def send_order_emails_def
      order_placed_def)

lemma is_domain_real_iff:
  "is_domain_real e a \<longleftrightarrow>
     \<not> (last (split (CHR ''@'') a) \<in> blocklist e
        \<or> dns_resolve e (last (split (CHR ''@'') a)) MX \<in> {Raised, Returned []}
        \<or> dns_resolve e (last (split (CHR ''@'') a)) NS \<in> {Raised, Returned []})"
  by (auto simp: is_domain_real_def is_domain_real_body_def Let_def split: outcome.splits)

lemma ex_differ: "differ_only_in_case ''User@Example.COM'' ''user@example.com''"
  by code_simp

lemma example_env_fields:
  "now_weekday example_env = Tuesday" "now_hour example_env = 10"
  "turnstile example_env = (\<lambda>token. Returned True)"
  "blocklist example_env = {''mailinator.com''}"
  "dns_resolve example_env = (\<lambda>domain rd. Returned [''record''])"
  "ses_send_email example_env = (\<lambda>m. True)"
  by (simp_all add: example_env_def)

lemma example_request_fields:
  "verification example_request = []" "email example_request = ''User@Example.COM''"
  "verification bot_request = ''x''"
  by (simp_all add: example_request_def bot_request_def)

section \<open>Claims about the handler\<close>

text \<open>
  C4. When the Eastern clock shows Sunday, or an hour below 8 or at or after 20, the
  handler raises the HTTP 400 with the fixed business-hours message and sends nothing.
  On Monday to Saturday with the hour in [8, 20) the hours gate passes:
  \<open>validate_business_hours\<close> returns \<open>(True, '')\<close> and the handler's answer is not
  the business-hours rejection.
\<close>

theorem business_hours_gate:
  "(now_weekday e = Sunday \<or> now_hour e < 8 \<or> 20 \<le> now_hour e \<longrightarrow>
      process_order e r =
        (Inl (HTTPException 400 ''Our business hours are Mon-Sat 8am-8pm.''), []))
   \<and> (now_weekday e \<noteq> Sunday \<and> 8 \<le> now_hour e \<and> now_hour e < 20 \<longrightarrow>
      validate_business_hours (now_weekday e) (now_hour e) = (True, [])
      \<and> fst (process_order e r) \<noteq>
          Inl (HTTPException 400 ''Our business hours are Mon-Sat 8am-8pm.''))"
  using process_order_closed [of e r] hours_open [of e] process_order_not_closed [of e r]
  by blast

theorem business_hours_gate_witness:
  "process_order (example_env\<lparr>now_hour := 21\<rparr>) example_request =
     (Inl (HTTPException 400 ''Our business hours are Mon-Sat 8am-8pm.''), [])
   \<and> validate_business_hours Tuesday 10 = (True, [])
   \<and> fst (process_order example_env example_request) \<noteq>
       Inl (HTTPException 400 ''Our business hours are Mon-Sat 8am-8pm.'')"
  using business_hours_gate [of "example_env\<lparr>now_hour := 21\<rparr>" example_request]
    business_hours_gate [of example_env example_request]
  by (simp add: example_env_fields)

text \<open>
  C1, as the code has it. A request whose honeypot field \<open>verification\<close> is non-empty
  and which arrives within business hours gets the HTTP 200 success response with a
  well-formed order identifier (8 characters, digits and uppercase A-F) and the message
  "Order placed successfully", and no email is sent. The hours gate runs before the
  honeypot check, so outside business hours the same request gets the HTTP 400.
\<close>

theorem honeypot_counterexample:
  "verification bot_request \<noteq> []
   \<and> process_order (example_env\<lparr>now_weekday := Sunday\<rparr>) bot_request =
       (Inl (HTTPException 400 ''Our business hours are Mon-Sat 8am-8pm.''), [])"
  by (simp add: process_order_closed example_request_fields)

theorem honeypot_accepts_without_dispatch:
  assumes "now_weekday e \<noteq> Sunday" and "8 \<le> now_hour e" and "now_hour e < 20"
    and "verification r \<noteq> []"
  shows "process_order e r =
           (Inr (JSONResponse 200
                  \<lparr>success = True, orderId = generate_order_id e,
                   message = ''Order placed successfully''\<rparr>), [])
         \<and> well_formed_order_id (generate_order_id e)"
  using assms generate_order_id_well_formed [of e]
  by (simp add: process_order_def process_order_open order_placed_def Let_def)

theorem honeypot_accepts_without_dispatch_witness:
  "process_order example_env bot_request =
     (Inr (JSONResponse 200
            \<lparr>success = True, orderId = ''1A2B3C4D'',
             message = ''Order placed successfully''\<rparr>), [])
   \<and> well_formed_order_id ''1A2B3C4D''"
  using honeypot_accepts_without_dispatch [of example_env bot_request]
  by (simp add: example_env_fields example_request_fields example_order_id)

text \<open>
  C2, as the code has it. For a request that reaches the human-verification stage
  (business hours, empty honeypot): when the verification call returns a negative
  result the handler raises the HTTP 400 "Security check failed"; when the call itself
  raises, the exception reaches the handler's catch-all clause and the response is the
  HTTP 500 "Network error. Please try again.". No email is sent in either case.
\<close>

theorem verification_raise_counterexample:
  "now_weekday example_env \<noteq> Sunday \<and> 8 \<le> now_hour example_env \<and> now_hour example_env < 20
   \<and> verification example_request = []
   \<and> verify_turnstile_token (example_env\<lparr>turnstile := \<lambda>token. Raised\<rparr>)
        (cf_token example_request) = Raised
   \<and> process_order (example_env\<lparr>turnstile := \<lambda>token. Raised\<rparr>) example_request =
       (Inl (HTTPException 500 ''Network error. Please try again.''), [])"
  by (simp add: process_order_def process_order_open verify_turnstile_token_def
      example_env_fields example_request_fields)

theorem verification_failure_response:
  assumes "now_weekday e \<noteq> Sunday" and "8 \<le> now_hour e" and "now_hour e < 20"
    and "verification r = []"
  shows "(verify_turnstile_token e (cf_token r) = Returned False \<longrightarrow>
            process_order e r = (Inl (HTTPException 400 ''Security check failed''), []))
         \<and> (verify_turnstile_token e (cf_token r) = Raised \<longrightarrow>
            process_order e r =
              (Inl (HTTPException 500 ''Network error. Please try again.''), []))"
  using assms by (simp add: process_order_def process_order_open)

theorem verification_failure_response_witness:
  "process_order (example_env\<lparr>turnstile := \<lambda>token. Returned False\<rparr>) example_request =
     (Inl (HTTPException 400 ''Security check failed''), [])
   \<and> process_order (example_env\<lparr>turnstile := \<lambda>token. Raised\<rparr>) example_request =
     (Inl (HTTPException 500 ''Network error. Please try again.''), [])"
  using
    verification_failure_response
      [of "example_env\<lparr>turnstile := \<lambda>token. Returned False\<rparr>" example_request]
    verification_failure_response
      [of "example_env\<lparr>turnstile := \<lambda>token. Raised\<rparr>" example_request]
  by (simp add: example_env_fields example_request_fields verify_turnstile_token_def)



text \<open>
  C3. For a request that reaches the domain check (business hours, empty honeypot,
  positive verification): when the domain of the lowercased email address is in the
  blocklist, or the MX lookup raises or returns no record, or the NS lookup raises or
  returns no record, \<open>is_domain_real\<close> returns \<open>False\<close> (it has no other way out: an
  exception of the resolver is caught inside) and the handler raises the HTTP 400
  "Please provide a valid email address." without sending an email.
\<close>

theorem domain_check_fail_closed:
  assumes "now_weekday e \<noteq> Sunday" and "8 \<le> now_hour e" and "now_hour e < 20"
    and "verification r = []"
    and "verify_turnstile_token e (cf_token r) = Returned True"
    and "last (split (CHR ''@'') (lower (email r))) \<in> blocklist e
         \<or> dns_resolve e (last (split (CHR ''@'') (lower (email r)))) MX \<in> {Raised, Returned []}
         \<or> dns_resolve e (last (split (CHR ''@'') (lower (email r)))) NS \<in> {Raised, Returned []}"
  shows "is_domain_real e (lower (email r)) = False
         \<and> process_order e r =
             (Inl (HTTPException 400 ''Please provide a valid email address.''), [])"
proof -
  have "\<not> is_domain_real e (lower (email r))"
    using assms(6)
    by (auto simp: is_domain_real_def is_domain_real_body_def Let_def split: outcome.splits)
  then show ?thesis
    using assms(1-5) by (simp add: process_order_def process_order_open)
qed

theorem domain_check_fail_closed_witness:
  "process_order (example_env\<lparr>dns_resolve := \<lambda>domain rd. Raised\<rparr>) example_request =
     (Inl (HTTPException 400 ''Please provide a valid email address.''), [])
   \<and> process_order (example_env\<lparr>blocklist := {''example.com''}\<rparr>) example_request =
     (Inl (HTTPException 400 ''Please provide a valid email address.''), [])
   \<and> process_order
       (example_env\<lparr>dns_resolve := \<lambda>domain rd. if rd = NS then Returned [] else Returned [''mx'']\<rparr>)
       example_request =
     (Inl (HTTPException 400 ''Please provide a valid email address.''), [])"
  using
    domain_check_fail_closed
      [of "example_env\<lparr>dns_resolve := \<lambda>domain rd. Raised\<rparr>" example_request]
    domain_check_fail_closed
      [of "example_env\<lparr>blocklist := {''example.com''}\<rparr>" example_request]
    domain_check_fail_closed
      [of "example_env\<lparr>dns_resolve := \<lambda>domain rd. if rd = NS then Returned [] else Returned [''mx'']\<rparr>"
          example_request]
  by (simp add: example_env_fields example_request_fields verify_turnstile_token_def
      lower_example domain_example)

text \<open>
  C9, as the code has it. For a request that reaches notification dispatch (business
  hours, empty honeypot, positive verification, real email domain) the owner email is
  sent first and the customer email second, inside one \<open>try\<close>. The response is the HTTP
  200 success exactly when both sends succeed. When the owner send fails nothing was
  sent; when the owner send succeeds and the customer send fails, the owner email has
  already been delivered. In both failure cases the response is the HTTP 500 "Failed to
  send order confirmation. Please try again.", and the customer email was not sent.
\<close>

theorem dispatch_partial_counterexample:
  "process_order
     (example_env\<lparr>ses_send_email := \<lambda>m. to_addresses m = [''owner@shop.example'']\<rparr>)
     example_request =
     (Inl (HTTPException 500 ''Failed to send order confirmation. Please try again.''),
      [\<lparr>source = ''no-reply@shop.example'', to_addresses = [''owner@shop.example''],
        subject = ''New Order Received - 1A2B3C4D''\<rparr>])"
proof -
  let ?e = "example_env\<lparr>ses_send_email := \<lambda>m. to_addresses m = [''owner@shop.example'']\<rparr>"
  have id: "generate_order_id ?e = ''1A2B3C4D''"
    using example_order_id by (simp add: generate_order_id_def example_env_def)
  have dom: "is_domain_real ?e ''user@example.com''"
    by (simp add: is_domain_real_def is_domain_real_body_def domain_example example_env_fields)
  have cfg: "business_email ?e = ''owner@shop.example''" "no_reply_email ?e = ''no-reply@shop.example''"
    by (simp_all add: example_env_def)
  have snd: "send_order_emails ?e example_request ''1A2B3C4D'' =
      (False, [\<lparr>source = ''no-reply@shop.example'', to_addresses = [''owner@shop.example''],
        subject = ''New Order Received - 1A2B3C4D''\<rparr>])"
    by (simp add: send_order_emails_def owner_message_def customer_message_def cfg
        example_request_fields lower_example)
  show ?thesis
    by (simp add: process_order_def process_order_open example_env_fields
        example_request_fields verify_turnstile_token_def lower_example id dom snd)
qed

theorem dispatch_outcomes:
  assumes "now_weekday e \<noteq> Sunday" and "8 \<le> now_hour e" and "now_hour e < 20"
    and "verification r = []"
    and "verify_turnstile_token e (cf_token r) = Returned True"
    and "is_domain_real e (lower (email r))"
  shows "(ses_send_email e (owner_message e (generate_order_id e))
            \<and> ses_send_email e (customer_message e r (generate_order_id e)) \<longrightarrow>
          process_order e r =
            (Inr (JSONResponse 200
                   \<lparr>success = True, orderId = generate_order_id e,
                    message = ''Order placed successfully''\<rparr>),
             [owner_message e (generate_order_id e),
              customer_message e r (generate_order_id e)]))
       \<and> (\<not> ses_send_email e (owner_message e (generate_order_id e)) \<longrightarrow>
          process_order e r =
            (Inl (HTTPException 500 ''Failed to send order confirmation. Please try again.''),
             []))
       \<and> (ses_send_email e (owner_message e (generate_order_id e))
            \<and> \<not> ses_send_email e (customer_message e r (generate_order_id e)) \<longrightarrow>
          process_order e r =
            (Inl (HTTPException 500 ''Failed to send order confirmation. Please try again.''),
             [owner_message e (generate_order_id e)]))"
  using assms
  by (simp add: process_order_def process_order_open send_order_emails_def order_placed_def
      Let_def)

theorem dispatch_outcomes_witness:
  "process_order example_env example_request =
     (Inr (JSONResponse 200
            \<lparr>success = True, orderId = ''1A2B3C4D'',
             message = ''Order placed successfully''\<rparr>),
      [\<lparr>source = ''no-reply@shop.example'', to_addresses = [''owner@shop.example''],
        subject = ''New Order Received - 1A2B3C4D''\<rparr>,
       \<lparr>source = ''no-reply@shop.example'', to_addresses = [''user@example.com''],
        subject = ''Order Confirmation - 1A2B3C4D''\<rparr>])"
proof -
  have dom: "is_domain_real example_env ''user@example.com''"
    by (simp add: is_domain_real_def is_domain_real_body_def domain_example example_env_fields)
  have cfg: "business_email example_env = ''owner@shop.example''"
    "no_reply_email example_env = ''no-reply@shop.example''"
    by (simp_all add: example_env_def)
  show ?thesis
    using dispatch_outcomes [of example_env example_request] dom
    by (simp add: example_env_fields example_request_fields verify_turnstile_token_def
        lower_example example_order_id owner_message_def customer_message_def cfg)
qed

text \<open>
  C10. Take two requests that reach the domain check (business hours, empty honeypot,
  positive verification) and whose email addresses differ only in letter case. The
  handler lowercases the address before it extracts the domain, so both requests are
  checked on the same domain, and the handler answers the one with the invalid-domain
  HTTP 400 exactly when it answers the other with it: exactly when that domain is in
  the blocklist or its MX or NS lookup raises or returns no record.
\<close>

theorem domain_check_case_insensitive:
  assumes "now_weekday e \<noteq> Sunday" and "8 \<le> now_hour e" and "now_hour e < 20"
    and "verification r1 = []" and "verification r2 = []"
    and "verify_turnstile_token e (cf_token r1) = Returned True"
    and "verify_turnstile_token e (cf_token r2) = Returned True"
    and "differ_only_in_case (email r1) (email r2)"
  shows "last (split (CHR ''@'') (lower (email r1))) = last (split (CHR ''@'') (lower (email r2)))
       \<and> (fst (process_order e r1) =
              Inl (HTTPException 400 ''Please provide a valid email address.'')
            \<longleftrightarrow> fst (process_order e r2) =
              Inl (HTTPException 400 ''Please provide a valid email address.''))
       \<and> (fst (process_order e r1) =
              Inl (HTTPException 400 ''Please provide a valid email address.'')
            \<longleftrightarrow> last (split (CHR ''@'') (lower (email r1))) \<in> blocklist e
              \<or> dns_resolve e (last (split (CHR ''@'') (lower (email r1)))) MX
                  \<in> {Raised, Returned []}
              \<or> dns_resolve e (last (split (CHR ''@'') (lower (email r1)))) NS
                  \<in> {Raised, Returned []})"
proof -
  have low: "lower (email r1) = lower (email r2)"
    using assms(8) by (rule differ_only_in_case_lower)
  have g1: "fst (process_order e r1) =
        Inl (HTTPException 400 ''Please provide a valid email address.'')
      \<longleftrightarrow> \<not> is_domain_real e (lower (email r1))"
    using assms(1-4,6) by (rule domain_gate_response)
  have g2: "fst (process_order e r2) =
        Inl (HTTPException 400 ''Please provide a valid email address.'')
      \<longleftrightarrow> \<not> is_domain_real e (lower (email r2))"
    using assms(1-3,5,7) by (rule domain_gate_response)
  show ?thesis
    unfolding g1 g2 is_domain_real_iff low by blast
qed

theorem domain_check_case_insensitive_witness:
  "fst (process_order (example_env\<lparr>blocklist := {''example.com''}\<rparr>) example_request) =
     Inl (HTTPException 400 ''Please provide a valid email address.'')
   \<and> fst (process_order (example_env\<lparr>blocklist := {''example.com''}\<rparr>)
          (example_request\<lparr>email := ''user@example.com''\<rparr>)) =
     Inl (HTTPException 400 ''Please provide a valid email address.'')"
proof -
  let ?e = "example_env\<lparr>blocklist := {''example.com''}\<rparr>"
  let ?r2 = "example_request\<lparr>email := ''user@example.com''\<rparr>"
  let ?rejected = "\<lambda>r. fst (process_order ?e r) =
      Inl (HTTPException 400 ''Please provide a valid email address.'')"
  have d: "differ_only_in_case (email example_request) (email ?r2)"
    using ex_differ by (simp add: example_request_fields)
  have h: "now_weekday ?e \<noteq> Sunday" "8 \<le> now_hour ?e" "now_hour ?e < 20"
    "verification example_request = []" "verification ?r2 = []"
    "verify_turnstile_token ?e (cf_token example_request) = Returned True"
    "verify_turnstile_token ?e (cf_token ?r2) = Returned True"
    by (simp_all add: example_env_fields example_request_fields verify_turnstile_token_def)
  have b: "last (split (CHR ''@'') (lower (email example_request))) \<in> blocklist ?e"
    by (simp add: example_request_fields lower_example domain_example)
  from domain_check_case_insensitive [OF h d] b
  have "?rejected example_request" and "?rejected example_request \<longleftrightarrow> ?rejected ?r2"
    by blast+
  then show ?thesis by blast
qed

section \<open>Locations of validation errors\<close>























section \<open>The phone pattern and its language\<close>


























section \<open>Claims about schema validation\<close>

text \<open>
  C6, as the code has it. A cart whose declared \<open>totalQty\<close> is 0, 1 or 2 fails
  validation, and the failure holds the minimum-order error "Our minimum order size for
  delivery is 3 items." for \<open>totalQty\<close>, whatever the line items are (valid or not).
  A negative \<open>totalQty\<close> is stopped earlier, by the \<open>ge=0\<close> constraint of the field, and
  the minimum-order validator does not run.
\<close>

theorem minimum_order_counterexample:
  "totalQty negative_cart < 3
   \<and> validate_cart example_library negative_cart = Inl [([''totalQty''], NotGreaterEqual)]"
  by (simp add: validate_cart_def cart_errors_def negative_cart_def example_library_def
      field_errors_def field_totalQty_def field_totalPrice_def validate_total_price_def)

theorem minimum_order_error:
  assumes "0 \<le> totalQty c" and "totalQty c < 3"
  shows "validate_cart L c = Inl (cart_errors L [] c)
         \<and> ([''totalQty''], ValueError ''Our minimum order size for delivery is 3 items.'')
             \<in> set (cart_errors L [] c)
         \<and> CHR ''3'' \<in> set ''Our minimum order size for delivery is 3 items.''"
  using assms
  by (simp add: validate_cart_def cart_errors_def Let_def field_errors_def field_totalQty_def
      validate_min_quantity_def)

theorem minimum_order_error_witness:
  "validate_cart example_library small_cart = Inl (cart_errors example_library [] small_cart)
   \<and> ([''totalQty''], ValueError ''Our minimum order size for delivery is 3 items.'')
       \<in> set (cart_errors example_library [] small_cart)
   \<and> cart_errors example_library [] small_cart =
       [([''items'', ''apple'', ''qty''], NotGreaterThan),
        ([''totalQty''], ValueError ''Our minimum order size for delivery is 3 items.'')]"
proof -
  have "cart_errors example_library [] small_cart =
       [([''items'', ''apple'', ''qty''], NotGreaterThan),
        ([''totalQty''], ValueError ''Our minimum order size for delivery is 3 items.'')]"
    by (simp add: cart_errors_def small_cart_def example_library_def validate_cart_item_def
        field_errors_def field_totalQty_def field_totalPrice_def validate_total_price_def
        validate_min_quantity_def)
  moreover have "0 \<le> totalQty small_cart" "totalQty small_cart < 3"
    by (simp_all add: small_cart_def)
  ultimately show ?thesis
    using minimum_order_error [of small_cart example_library] by simp
qed







section \<open>Claims about the phone validator\<close>





end
